theory Spec2Isabelle
  imports Complex_Main "HOL-Library.Char_ord" "HOL-Library.List_Lexorder"
begin

section \<open>Strings, numbers and times\<close>

text \<open>
  JavaScript strings are modelled as \<^typ>\<open>string\<close>, one \<^typ>\<open>char\<close> per code unit
  (code units below 256). The order on strings is the lexicographic order on code units, which
  is the order of SQLite's BINARY collation and of JavaScript's default \<open>sort\<close>.
  A JavaScript object used as a dictionary (\<open>Record<string, T>\<close>) is an association list in
  insertion order, the order in which \<open>Object.entries\<close>, \<open>Object.keys\<close> and \<open>JSON.stringify\<close>
  enumerate keys that are not array indices.
\<close>

subsection \<open>Decimal digits\<close>

definition digit_char :: "nat \<Rightarrow> char" where
  "digit_char n = char_of (48 + n mod 10)"

fun show_nat :: "nat \<Rightarrow> string" where
  "show_nat n = (if n < 10 then [digit_char n] else show_nat (n div 10) @ [digit_char n])"

declare show_nat.simps [simp del]

text \<open>\<open>String(n)\<close> for an integral number \<open>n\<close>, as a template literal prints it.\<close>

definition show_int :: "int \<Rightarrow> string" where
  "show_int i = (if i < 0 then CHR ''-'' # show_nat (nat (- i)) else show_nat (nat i))"

text \<open>\<open>String(n).padStart(w, '0')\<close>.\<close>

definition pad :: "nat \<Rightarrow> nat \<Rightarrow> string" where
  "pad w n = replicate (w - length (show_nat n)) (CHR ''0'') @ show_nat n"

definition digit_val :: "char \<Rightarrow> nat option" where
  "digit_val c = (let n = (of_char c :: nat) in if 48 \<le> n \<and> n \<le> 57 then Some (n - 48) else None)"

text \<open>The value of a string of decimal digits, read left to right; \<open>acc\<close> is the value so far.\<close>

fun read_digits :: "nat \<Rightarrow> string \<Rightarrow> nat option" where
  "read_digits acc [] = Some acc"
| "read_digits acc (c # cs) =
     (case digit_val c of None \<Rightarrow> None | Some d \<Rightarrow> read_digits (10 * acc + d) cs)"

definition read_nat :: "string \<Rightarrow> nat option" where
  "read_nat s = (if s = [] then None else read_digits 0 s)"

subsection \<open>The proleptic Gregorian calendar\<close>

text \<open>
  Days since 1970-01-01 of a date and back: ECMAScript's \<open>MakeDay\<close> and its
  \<open>YearFromTime\<close>, \<open>MonthFromTime\<close>, \<open>DateFromTime\<close>, which SQLite's date functions agree with.
  Months are 1 to 12 here, and years begin on 1 March inside the computation, so that the
  leap day is the last day of its year. A day of month past the end of the month runs into
  the next month, as \<open>MakeDay\<close> does.
\<close>

definition days_from_civil :: "int \<Rightarrow> int \<Rightarrow> int \<Rightarrow> int" where
  "days_from_civil y m d =
     (let y' = (if m \<le> 2 then y - 1 else y);
          era = y' div 400;
          yoe = y' mod 400;
          mp = (m + 9) mod 12;
          doy = (153 * mp + 2) div 5 + d - 1;
          doe = yoe * 365 + yoe div 4 - yoe div 100 + doy
      in era * 146097 + doe - 719468)"

text \<open>
  The date of a day number: the 400-year, 100-year, 4-year and 1-year cycles of the calendar
  are counted off from 1 March of year 0, then the month and the day within the year.
\<close>

definition civil_from_days :: "int \<Rightarrow> int \<times> int \<times> int" where
  "civil_from_days z =
     (let z' = z + 719468;
          era = z' div 146097;
          doe = z' mod 146097;
          c = min 3 (doe div 36524);
          d1 = doe - 36524 * c;
          q = d1 div 1461;
          d2 = d1 mod 1461;
          r = min 3 (d2 div 365);
          doy = d2 - 365 * r;
          yoe = 100 * c + 4 * q + r;
          mp = (5 * doy + 2) div 153;
          d = doy - (153 * mp + 2) div 5 + 1;
          m = (if mp < 10 then mp + 3 else mp - 9);
          y = yoe + era * 400 + (if m \<le> 2 then 1 else 0)
      in (y, m, d))"



definition msPerDay :: int where
  "msPerDay = 86400000"

subsection \<open>Reading a timestamp\<close>

text \<open>
  The layouts read are the ones this program stores and receives: the date \<open>YYYY-MM-DD\<close>,
  the provider's \<open>YYYY-MM-DDTHH:MM:SSZ\<close>, \<open>toISOString\<close>'s \<open>YYYY-MM-DDTHH:MM:SS.sssZ\<close> and
  SQLite's \<open>YYYY-MM-DD HH:MM:SS\<close>; any other text reads as no time at all.
  \<open>parse_date\<close> gives the day number, \<open>parse_clock\<close> the milliseconds into the day of
  \<open>HH:MM:SS\<close> with an optional \<open>.sss\<close>. The day of month is checked against 31 only, as V8
  and SQLite do.
\<close>

text \<open>The month and day of \<open>-MM-DD\<close>, the year, month and day of \<open>YYYY-MM-DD\<close>.\<close>

definition parse_month_day :: "string \<Rightarrow> (int \<times> int) option" where
  "parse_month_day s =
     (if length s = 6 \<and> s ! 0 = CHR ''-'' \<and> s ! 3 = CHR ''-'' then
        (case (read_nat (take 2 (drop 1 s)), read_nat (drop 4 s)) of
           (Some m, Some d) \<Rightarrow>
             if 1 \<le> m \<and> m \<le> 12 \<and> 1 \<le> d \<and> d \<le> 31 then Some (int m, int d) else None
         | _ \<Rightarrow> None)
      else None)"

definition date_fields :: "string \<Rightarrow> (int \<times> int \<times> int) option" where
  "date_fields s =
     (if length s = 10 then
        (case (read_nat (take 4 s), parse_month_day (drop 4 s)) of
           (Some y, Some (m, d)) \<Rightarrow> Some (int y, m, d)
         | _ \<Rightarrow> None)
      else None)"

definition parse_date :: "string \<Rightarrow> int option" where
  "parse_date s = map_option (\<lambda>(y, m, d). days_from_civil y m d) (date_fields s)"

text \<open>
  ECMAScript's expanded years, which \<open>toISOString\<close> writes outside 0 to 9999: a sign and six
  digits, \<open>-000000\<close> excluded.
\<close>

definition expanded_date_fields :: "string \<Rightarrow> (int \<times> int \<times> int) option" where
  "expanded_date_fields s =
     (if length s = 13 \<and> (hd s = CHR ''+'' \<or> hd s = CHR ''-'') then
        (case (read_nat (take 6 (tl s)), parse_month_day (drop 7 s)) of
           (Some y, Some (m, d)) \<Rightarrow>
             if hd s = CHR ''-'' \<and> y = 0 then None
             else Some (if hd s = CHR ''-'' then - int y else int y, m, d)
         | _ \<Rightarrow> None)
      else None)"

definition parse_expanded_date :: "string \<Rightarrow> int option" where
  "parse_expanded_date s = map_option (\<lambda>(y, m, d). days_from_civil y m d) (expanded_date_fields s)"

definition parse_hms :: "string \<Rightarrow> int option" where
  "parse_hms s =
     (if length s = 8 \<and> s ! 2 = CHR '':'' \<and> s ! 5 = CHR '':'' then
        (case (read_nat (take 2 s), read_nat (take 2 (drop 3 s)), read_nat (drop 6 s)) of
           (Some h, Some mi, Some sec) \<Rightarrow>
             if h \<le> 23 \<and> mi \<le> 59 \<and> sec \<le> 59
             then Some (int h * 3600000 + int mi * 60000 + int sec * 1000) else None
         | _ \<Rightarrow> None)
      else None)"

definition parse_clock :: "string \<Rightarrow> int option" where
  "parse_clock s =
     (if length s = 8 then parse_hms s
      else if length s = 12 \<and> s ! 8 = CHR ''.'' then
        (case (parse_hms (take 8 s), read_nat (drop 9 s)) of
           (Some t, Some ms) \<Rightarrow> Some (t + int ms)
         | _ \<Rightarrow> None)
      else None)"

text \<open>
  \<open>new Date(s).getTime()\<close>: milliseconds since the epoch, \<open>None\<close> for \<open>NaN\<close> (an invalid
  date). A date alone is midnight UTC; a date and time must end in \<open>Z\<close>.
\<close>

definition Date_parse :: "string \<Rightarrow> int option" where
  "Date_parse s =
     (let expanded = (s \<noteq> [] \<and> (hd s = CHR ''+'' \<or> hd s = CHR ''-''));
          n = (if expanded then 13 else 10);
          day = (if expanded then parse_expanded_date (take n s) else parse_date (take n s))
      in if length s = n then map_option (\<lambda>d. d * msPerDay) day
         else if n + 1 < length s \<and> s ! n = CHR ''T'' \<and> last s = CHR ''Z'' then
           (case (day, parse_clock (butlast (drop (n + 1) s))) of
              (Some d, Some t) \<Rightarrow> Some (d * msPerDay + t)
            | _ \<Rightarrow> None)
         else None)"

text \<open>
  The instant SQLite's \<open>datetime(s)\<close> reads from a text value, in milliseconds, \<open>None\<close> for
  NULL: the separator is a space or \<open>T\<close>, and a trailing \<open>Z\<close> is optional.
\<close>

definition sqlite_parse :: "string \<Rightarrow> int option" where
  "sqlite_parse s =
     (if length s = 10 then map_option (\<lambda>d. d * msPerDay) (parse_date s)
      else if 11 < length s \<and> (s ! 10 = CHR ''T'' \<or> s ! 10 = CHR '' '') then
        (let rest = drop 11 s;
             clock = (if last rest = CHR ''Z'' then butlast rest else rest)
         in case (parse_date (take 10 s), parse_clock clock) of
              (Some d, Some t) \<Rightarrow> Some (d * msPerDay + t)
            | _ \<Rightarrow> None)
      else None)"

subsection \<open>Writing a timestamp\<close>

definition show_year :: "int \<Rightarrow> string" where
  "show_year y =
     (if 0 \<le> y \<and> y \<le> 9999 then pad 4 (nat y)
      else (if y < 0 then CHR ''-'' else CHR ''+'') # pad 6 (nat \<bar>y\<bar>))"

definition show_date :: "int \<Rightarrow> string" where
  "show_date days =
     (case civil_from_days days of
        (y, m, d) \<Rightarrow> show_year y @ ''-'' @ pad 2 (nat m) @ ''-'' @ pad 2 (nat d))"

definition show_hms :: "int \<Rightarrow> string" where
  "show_hms ms =
     pad 2 (nat (ms div 3600000)) @ '':'' @ pad 2 (nat (ms div 60000 mod 60)) @ '':'' @
     pad 2 (nat (ms div 1000 mod 60))"

text \<open>\<open>Date.prototype.toISOString\<close> of a valid time value.\<close>

definition toISOString :: "int \<Rightarrow> string" where
  "toISOString t =
     show_date (t div msPerDay) @ ''T'' @ show_hms (t mod msPerDay) @ ''.'' @
     pad 3 (nat (t mod 1000)) @ ''Z''"

text \<open>SQLite's \<open>CURRENT_TIMESTAMP\<close> when the clock reads \<open>now\<close> milliseconds.\<close>

definition CURRENT_TIMESTAMP :: "int \<Rightarrow> string" where
  "CURRENT_TIMESTAMP now = show_date (now div msPerDay) @ '' '' @ show_hms (now mod msPerDay)"

text \<open>
  \<open>getFullYear\<close> and \<open>getMonth\<close> read local time. \<open>tz\<close> is the offset of local time from
  UTC in minutes (0 on Cloudflare Workers, whose local time is UTC); \<open>getMonth\<close> counts
  from 0.
\<close>

definition getFullYear :: "int \<Rightarrow> int \<Rightarrow> int" where
  "getFullYear tz t = fst (civil_from_days ((t + tz * 60000) div msPerDay))"

definition getMonth :: "int \<Rightarrow> int \<Rightarrow> int" where
  "getMonth tz t = fst (snd (civil_from_days ((t + tz * 60000) div msPerDay))) - 1"

section \<open>The Job Queue: \<open>JobScheduler\<close> over the \<open>scheduled_jobs\<close> table\<close>

text \<open>
  A thrown JavaScript exception is a value: an \<open>Error\<close> with its message, or the
  \<open>RangeError\<close> that \<open>toISOString\<close> throws on an invalid date.
\<close>

datatype error = Error string | RangeError string

fun message :: "error \<Rightarrow> string" where
  "message (Error m) = m"
| "message (RangeError m) = m"

datatype job_status = Pending | Running | Completed | Failed

text \<open>
  A row of \<open>scheduled_jobs\<close> (migration 0001), which \<open>mapRowToJob\<close> turns field by field
  into a \<open>ScheduledJob\<close>. A nullable column is an \<open>option\<close>, \<open>None\<close> for NULL. The table is the
  list of its rows in insertion order; \<open>id\<close> is its PRIMARY KEY.
\<close>

record scheduled_job =
  jobId :: string
  leagueId :: string
  eventId :: string
  homeTeam :: string
  awayTeam :: string
  matchDate :: string
  kickoffTime :: string
  timingOffset :: string
  scheduledTime :: string
  status :: job_status
  attempts :: int
  lastAttempt :: "string option"
  snapshotPath :: "string option"
  error :: "string option"
  createdAt :: string
  completedAt :: "string option"

text \<open>The argument of \<open>scheduleJob\<close>: the nine fields its INSERT binds.\<close>

record new_job =
  new_id :: string
  new_leagueId :: string
  new_eventId :: string
  new_homeTeam :: string
  new_awayTeam :: string
  new_matchDate :: string
  new_kickoffTime :: string
  new_timingOffset :: string
  new_scheduledTime :: string

text \<open>
  \<open>scheduleJob\<close> is a plain \<open>INSERT INTO scheduled_jobs\<close>: with the primary key already
  present the statement fails with a constraint error (\<open>Inl\<close>, the table as it was);
  otherwise the row is appended with the column defaults of the schema.
\<close>

definition scheduleJob :: "int \<Rightarrow> new_job \<Rightarrow> scheduled_job list \<Rightarrow> error + scheduled_job list" where
  "scheduleJob now job db =
     (if new_id job \<in> set (map jobId db)
      then Inl (Error ''UNIQUE constraint failed: scheduled_jobs.id'')
      else Inr (db @
        [\<lparr> jobId = new_id job, leagueId = new_leagueId job, eventId = new_eventId job,
           homeTeam = new_homeTeam job, awayTeam = new_awayTeam job,
           matchDate = new_matchDate job, kickoffTime = new_kickoffTime job,
           timingOffset = new_timingOffset job, scheduledTime = new_scheduledTime job,
           status = Pending, attempts = 0, lastAttempt = None, snapshotPath = None,
           error = None, createdAt = CURRENT_TIMESTAMP now, completedAt = None \<rparr>]))"

text \<open>\<open>getJob\<close>: \<open>SELECT * FROM scheduled_jobs WHERE id = ?\<close>, first row or null.\<close>

definition getJob :: "scheduled_job list \<Rightarrow> string \<Rightarrow> scheduled_job option" where
  "getJob db jid = find (\<lambda>r. jobId r = jid) db"

text \<open>
  \<open>getJobsDueWithin\<close>: the WHERE clause compares \<open>datetime(scheduled_time)\<close> with
  \<open>datetime('now', '+N minutes')\<close>. \<open>datetime\<close> prints whole seconds in a fixed layout, so the
  comparison is the comparison of the two instants in whole seconds, and false when
  \<open>scheduled_time\<close> does not read as a time. ORDER BY sorts the text column itself.
\<close>

definition dueWithin :: "int \<Rightarrow> nat \<Rightarrow> scheduled_job \<Rightarrow> bool" where
  "dueWithin now minutes j =
     (status j = Pending \<and>
      (case sqlite_parse (scheduledTime j) of
         None \<Rightarrow> False
       | Some t \<Rightarrow> t div 1000 \<le> now div 1000 + 60 * int minutes))"

definition getJobsDueWithin :: "int \<Rightarrow> nat \<Rightarrow> nat \<Rightarrow> scheduled_job list \<Rightarrow> scheduled_job list" where
  "getJobsDueWithin now minutes maxJobs db =
     take maxJobs (sort_key scheduledTime (filter (dueWithin now minutes) db))"

text \<open>
  \<open>x || null\<close> for an optional string argument: \<open>undefined\<close> (\<open>None\<close>) and the empty string
  both bind NULL.
\<close>

definition orNull :: "string option \<Rightarrow> string option" where
  "orNull x = (case x of None \<Rightarrow> None | Some s \<Rightarrow> if s = [] then None else Some s)"

text \<open>\<open>COALESCE(a, b)\<close>.\<close>

definition coalesce :: "'a option \<Rightarrow> 'a option \<Rightarrow> 'a option" where
  "coalesce a b = (case a of None \<Rightarrow> b | Some v \<Rightarrow> Some v)"

text \<open>The SET clause of \<open>updateJobStatus\<close> on one row.\<close>

definition updateRow ::
  "int \<Rightarrow> job_status \<Rightarrow> string option \<Rightarrow> string option \<Rightarrow> scheduled_job \<Rightarrow> scheduled_job" where
  "updateRow now st snapshotPathArg errorArg r =
     r\<lparr> status := st,
        attempts := attempts r + 1,
        lastAttempt := Some (CURRENT_TIMESTAMP now),
        snapshotPath := coalesce (orNull snapshotPathArg) (snapshotPath r),
        error := orNull errorArg,
        completedAt := (if st \<in> {Completed, Failed} then Some (CURRENT_TIMESTAMP now)
                        else completedAt r) \<rparr>"

definition updateJobStatus ::
  "int \<Rightarrow> string \<Rightarrow> job_status \<Rightarrow> string option \<Rightarrow> string option \<Rightarrow>
   scheduled_job list \<Rightarrow> scheduled_job list" where
  "updateJobStatus now jid st snapshotPathArg errorArg db =
     map (\<lambda>r. if jobId r = jid then updateRow now st snapshotPathArg errorArg r else r) db"

section \<open>Path utilities (\<open>utils/pathUtils\<close>)\<close>

text \<open>
  The white space of the regular expression \<open>\s\<close> among code units below 256: tab, line
  feed, vertical tab, form feed, carriage return, space and no-break space.
\<close>

definition isSpace :: "char \<Rightarrow> bool" where
  "isSpace c = ((of_char c :: nat) \<in> {9, 10, 11, 12, 13, 32, 160})"

text \<open>
  \<open>s.replace(/\s+/g, '_')\<close>: every maximal run of white space becomes one underscore.
  \<open>inRun\<close> says that the character before was white space.
\<close>

fun replaceSpaces :: "bool \<Rightarrow> string \<Rightarrow> string" where
  "replaceSpaces inRun [] = []"
| "replaceSpaces inRun (c # cs) =
     (if isSpace c then (if inRun then replaceSpaces True cs else CHR ''_'' # replaceSpaces True cs)
      else c # replaceSpaces False cs)"

definition formatTeamNameForPath :: "string \<Rightarrow> string" where
  "formatTeamNameForPath teamName = replaceSpaces False teamName"

definition generateSnapshotPath ::
  "string \<Rightarrow> string \<Rightarrow> string \<Rightarrow> string \<Rightarrow> string \<Rightarrow> string \<Rightarrow> string \<Rightarrow> string" where
  "generateSnapshotPath league season timing date home away event =
     (let home' = formatTeamNameForPath home;
          away' = formatTeamNameForPath away;
          shortEventId = take 7 event
      in league @ ''/'' @ season @ ''/snapshots/'' @ timing @ ''/'' @ date @ ''/'' @
         home' @ ''_vs_'' @ away' @ ''_'' @ shortEventId @ ''.json'')"


text \<open>
  \<open>inferSeasonFromDate\<close>. On an invalid date \<open>getFullYear\<close> and \<open>getMonth\<close> give \<open>NaN\<close>,
  the comparison \<open>month >= 8\<close> is false and the template prints \<open>NaN-NaN\<close>.
\<close>

definition inferSeasonFromDate :: "int \<Rightarrow> string \<Rightarrow> string" where
  "inferSeasonFromDate tz date =
     (case Date_parse date of
        None \<Rightarrow> ''NaN-NaN''
      | Some t \<Rightarrow>
          (let year = getFullYear tz t;
               month = getMonth tz t + 1
           in if month \<ge> 8 then show_int year @ ''-'' @ show_int (year + 1)
              else show_int (year - 1) @ ''-'' @ show_int year))"

text \<open>
  \<open>new Date(v)\<close> for a number: \<open>TimeClip\<close> gives an invalid date beyond 8.64e15 ms and drops
  the fraction otherwise. \<open>hoursBeforeKickoff\<close> is a rational number; the rounding of
  floating-point arithmetic is not modelled.
\<close>

definition timeClip :: "rat \<Rightarrow> int option" where
  "timeClip v =
     (if \<bar>v\<bar> > 8640000000000000 then None
      else Some (if v < 0 then \<lceil>v\<rceil> else \<lfloor>v\<rfloor>))"

text \<open>\<open>calculateScheduledTime\<close>; \<open>toISOString\<close> throws a \<open>RangeError\<close> on an invalid date.\<close>

definition calculateScheduledTime :: "string \<Rightarrow> rat \<Rightarrow> error + string" where
  "calculateScheduledTime kickoff hours =
     (case Date_parse kickoff of
        None \<Rightarrow> Inl (RangeError ''Invalid time value'')
      | Some k \<Rightarrow>
          (case timeClip (of_int k - hours * 60 * 60 * 1000) of
             None \<Rightarrow> Inl (RangeError ''Invalid time value'')
           | Some t \<Rightarrow> Inr (toISOString t)))"

definition generateJobId :: "string \<Rightarrow> string \<Rightarrow> string" where
  "generateJobId event timing = event @ ''_'' @ timing"

section \<open>Configuration, provider and storage\<close>

record timing_offset =
  timing_name :: string
  hoursBeforeKickoff :: rat
  markets :: string

record league_config =
  league_id :: string
  providerKey :: string
  normalizeTeamName :: "(string \<Rightarrow> string) option"

record odds_event =
  event_id :: string
  event_homeTeam :: string
  event_awayTeam :: string
  commenceTime :: string

text \<open>\<open>EventOdds\<close>; the bookmakers' prices are an opaque payload.\<close>

record event_odds =
  odds_id :: string
  odds_sportKey :: string
  odds_homeTeam :: string
  odds_awayTeam :: string
  odds_commenceTime :: string
  bookmakers :: string

record snapshot_metadata =
  timestamp :: string
  date :: string
  league :: string
  season :: string
  collectionMethod :: string
  snapshotTiming :: string
  meta_eventId :: string
  meta_kickoffTime :: string

record odds_snapshot =
  metadata :: snapshot_metadata
  odds :: event_odds

record match_index_entry =
  entry_homeTeam :: string
  entry_awayTeam :: string
  entry_matchDate :: string
  entry_eventId :: string
  snapshots :: "(string \<times> string) list"
  entry_kickoffTime :: string

record date_entry =
  date_matchCount :: nat
  date_matches :: "string list"
  snapshotTimingsAvailable :: "string list"

record team_entry =
  team_matchCount :: nat
  team_matches :: "string list"

text \<open>
  An index file: a \<open>MatchIndex\<close>, which the date index extends with \<open>dates\<close> and the team
  index with \<open>teams\<close> (\<open>None\<close> where the object has no such property).
\<close>

record index_file =
  version :: string
  index_leagueId :: string
  index_season :: string
  lastUpdated :: string
  matches :: "(string \<times> match_index_entry) list"
  dates :: "(string \<times> date_entry) list option"
  teams :: "(string \<times> team_entry) list option"

text \<open>
  An object of the bucket, by what its JSON body holds. Equal values have equal bodies:
  \<open>JSON.stringify\<close> prints the properties in insertion order.
\<close>

datatype blob = Snapshot odds_snapshot | Index index_file

datatype index_type = by_match | by_date | by_team

fun index_name :: "index_type \<Rightarrow> string" where
  "index_name by_match = ''by_match''"
| "index_name by_date = ''by_date''"
| "index_name by_team = ''by_team''"

record collection_metrics =
  metrics_date :: string
  metrics_leagueId :: string
  jobsScheduled :: nat
  jobsCompleted :: nat
  jobsFailed :: nat
  apiRequests :: nat
  apiCostTokens :: nat

text \<open>
  What lies outside the program: the provider's answers, the local time zone of the runtime,
  and which requests to the bucket and to the queue fail. \<open>putFault key n\<close> is the error of
  the \<open>n\<close>-th attempt to put \<open>key\<close>, if it fails; \<open>queueFault\<close> is the error of a statement
  sent to the queue during execution, if it fails.
\<close>

datatype queue_call =
    GetJobsDueWithin
  | UpdateJobStatus string job_status
  | RecordMetrics string string

record environment =
  fetchEvents :: "string \<Rightarrow> error + odds_event list"
  fetchEventOdds :: "string \<Rightarrow> string \<Rightarrow> string \<Rightarrow> error + event_odds"
  tz :: int
  putFault :: "string \<Rightarrow> nat \<Rightarrow> error option"
  queueFault :: "queue_call \<Rightarrow> error option"

text \<open>The configuration of an \<open>OddsCollector\<close> with its \<open>R2Storage\<close>.\<close>

record collector =
  basePath :: string
  maxRetries :: nat
  timings :: "timing_offset list"
  leagues :: "league_config list"
  maxJobsPerRun :: nat
  requestDelay :: nat

text \<open>
  The state the program shares: the clock (milliseconds since the epoch), the two tables of
  the queue and the objects of the bucket by key.
\<close>

record world =
  clock :: int
  jobs :: "scheduled_job list"
  metricsRows :: "collection_metrics list"
  objects :: "(string \<times> blob) list"

text \<open>\<open>await this.delay(ms)\<close>.\<close>

definition delay :: "nat \<Rightarrow> world \<Rightarrow> world" where
  "delay ms w = w\<lparr>clock := clock w + int ms\<rparr>"

text \<open>
  \<open>obj[k] = v\<close> on a dictionary: an existing key keeps its place, a new key goes last.
\<close>

fun put :: "'k \<Rightarrow> 'v \<Rightarrow> ('k \<times> 'v) list \<Rightarrow> ('k \<times> 'v) list" where
  "put k v [] = [(k, v)]"
| "put k v ((k', v') # kvs) = (if k' = k then (k, v) # kvs else (k', v') # put k v kvs)"

subsection \<open>\<open>R2Storage\<close>\<close>

text \<open>\<open>parts.join(sep)\<close>.\<close>

fun join :: "string \<Rightarrow> string list \<Rightarrow> string" where
  "join sep [] = []"
| "join sep [p] = p"
| "join sep (p # q # ps) = p @ sep @ join sep (q # ps)"

definition getKey :: "collector \<Rightarrow> string list \<Rightarrow> string" where
  "getKey c parts =
     (let allParts = (if basePath c \<noteq> [] then basePath c # parts else parts)
      in join ''/'' (filter (\<lambda>p. p \<noteq> []) allParts))"

text \<open>The key of an index file, as \<open>saveIndex\<close>, \<open>getIndex\<close> and \<open>indexExists\<close> compute it.\<close>

definition indexKey :: "collector \<Rightarrow> string \<Rightarrow> string \<Rightarrow> index_type \<Rightarrow> string" where
  "indexKey c leagueId' season' indexType =
     getKey c [''leagues'', leagueId', season', index_name indexType @ ''.json'']"

text \<open>
  \<open>withRetry\<close>, from attempt \<open>attempt\<close> with \<open>fuel\<close> attempts left: \<open>operation n\<close> is the
  outcome of the \<open>n\<close>-th attempt. Between attempts it sleeps \<open>min (1000 * 2^(attempt - 1)) 10000\<close>
  milliseconds; after the last one it throws.
\<close>

fun retryLoop ::
  "nat \<Rightarrow> string \<Rightarrow> (nat \<Rightarrow> error option) \<Rightarrow> nat \<Rightarrow> nat \<Rightarrow> error option \<Rightarrow> world \<Rightarrow>
   error option \<times> world" where
  "retryLoop maxR operationName operation attempt 0 lastError w =
     (Some (Error (''R2Storage: '' @ operationName @ '' failed after '' @ show_nat maxR @
        '' attempts: '' @ (case lastError of None \<Rightarrow> ''undefined'' | Some e \<Rightarrow> message e))), w)"
| "retryLoop maxR operationName operation attempt (Suc fuel) lastError w =
     (case operation attempt of
        None \<Rightarrow> (None, w)
      | Some e \<Rightarrow>
          retryLoop maxR operationName operation (Suc attempt) fuel (Some e)
            (if attempt < maxR then delay (min (1000 * 2 ^ (attempt - 1)) 10000) w else w))"

definition withRetry ::
  "collector \<Rightarrow> string \<Rightarrow> (nat \<Rightarrow> error option) \<Rightarrow> world \<Rightarrow> error option \<times> world" where
  "withRetry c operationName operation w =
     (let maxR = (if maxRetries c = 0 then 3 else maxRetries c)
      in retryLoop maxR operationName operation 1 maxR None w)"

definition getSnapshotId :: "odds_snapshot \<Rightarrow> string" where
  "getSnapshotId snapshot =
     odds_id (odds snapshot) @ ''_'' @ snapshotTiming (metadata snapshot) @ ''_'' @
     date (metadata snapshot)"

text \<open>\<open>saveSnapshot\<close>: the error thrown, if any, and the world after.\<close>

definition saveSnapshot ::
  "environment \<Rightarrow> collector \<Rightarrow> string \<Rightarrow> string \<Rightarrow> odds_snapshot \<Rightarrow> world \<Rightarrow>
   error option \<times> world" where
  "saveSnapshot env c leagueId' season' snapshot w =
     (let snapshotId = getSnapshotId snapshot;
          key = getKey c [''leagues'', leagueId', season', snapshotId @ ''.json'']
      in case withRetry c (''saveSnapshot('' @ key @ '')'') (putFault env key) w of
           (Some e, w') \<Rightarrow> (Some e, w')
         | (None, w') \<Rightarrow> (None, w'\<lparr>objects := put key (Snapshot snapshot) (objects w')\<rparr>))"


text \<open>
  \<open>getIndex\<close>: null when there is no such object. Reads of the bucket are taken to be
  answered. The keys of snapshots and of indexes are apart, so an object under an index key
  holds an index.
\<close>

definition getIndex :: "collector \<Rightarrow> string \<Rightarrow> string \<Rightarrow> index_type \<Rightarrow> world \<Rightarrow> index_file option" where
  "getIndex c leagueId' season' indexType w =
     (let key = getKey c [''leagues'', leagueId', season', index_name indexType @ ''.json'']
      in case map_of (objects w) key of
           Some (Index index) \<Rightarrow> Some index
         | _ \<Rightarrow> None)"

section \<open>The Collection Orchestrator (\<open>OddsCollector\<close>)\<close>

subsection \<open>Discovery\<close>

text \<open>\<open>new Date(scheduledTime) < now\<close>; a comparison with \<open>NaN\<close> is false.\<close>

definition isPast :: "int \<Rightarrow> string \<Rightarrow> bool" where
  "isPast now scheduledTime' =
     (case Date_parse scheduledTime' of None \<Rightarrow> False | Some t \<Rightarrow> t < now)"

text \<open>
  The loop over \<open>this.timings\<close> for one event. The state is the table together with
  \<open>totalJobsScheduled\<close>; the result also carries the exception that left the loop, if one
  did. What was inserted before the exception stays inserted. \<open>now\<close> is the time read at
  the start of discovery, \<open>clk\<close> the clock that stamps the inserted rows.
\<close>

fun scheduleTimings ::
  "int \<Rightarrow> int \<Rightarrow> league_config \<Rightarrow> odds_event \<Rightarrow> string \<Rightarrow> string \<Rightarrow> string \<Rightarrow>
   timing_offset list \<Rightarrow> scheduled_job list \<times> nat \<Rightarrow> error option \<times> scheduled_job list \<times> nat" where
  "scheduleTimings now clk lg event matchDate' homeTeam' awayTeam' [] st = (None, st)"
| "scheduleTimings now clk lg event matchDate' homeTeam' awayTeam' (timing # rest) (db, n) =
     (case calculateScheduledTime (commenceTime event) (hoursBeforeKickoff timing) of
        Inl e \<Rightarrow> (Some e, db, n)
      | Inr scheduledTime' \<Rightarrow>
          if isPast now scheduledTime'
          then scheduleTimings now clk lg event matchDate' homeTeam' awayTeam' rest (db, n)
          else
            (let jobId' = generateJobId (event_id event) (timing_name timing)
             in case getJob db jobId' of
                  Some existingJob \<Rightarrow>
                    scheduleTimings now clk lg event matchDate' homeTeam' awayTeam' rest (db, n)
                | None \<Rightarrow>
                    (case scheduleJob clk
                            \<lparr> new_id = jobId', new_leagueId = league_id lg,
                              new_eventId = event_id event, new_homeTeam = homeTeam',
                              new_awayTeam = awayTeam', new_matchDate = matchDate',
                              new_kickoffTime = commenceTime event,
                              new_timingOffset = timing_name timing,
                              new_scheduledTime = scheduledTime' \<rparr> db of
                       Inl e \<Rightarrow> (Some e, db, n)
                     | Inr db' \<Rightarrow>
                         scheduleTimings now clk lg event matchDate' homeTeam' awayTeam' rest
                           (db', Suc n))))"

text \<open>The loop over the events of one league; \<open>split('T')[0]\<close> is the text before the first \<open>T\<close>.\<close>

fun scheduleEvents ::
  "int \<Rightarrow> int \<Rightarrow> league_config \<Rightarrow> timing_offset list \<Rightarrow> odds_event list \<Rightarrow>
   scheduled_job list \<times> nat \<Rightarrow> error option \<times> scheduled_job list \<times> nat" where
  "scheduleEvents now clk lg tms [] st = (None, st)"
| "scheduleEvents now clk lg tms (event # rest) st =
     (let matchDate' = takeWhile (\<lambda>ch. ch \<noteq> CHR ''T'') (commenceTime event);
          homeTeam' = (case normalizeTeamName lg of
                         Some f \<Rightarrow> f (event_homeTeam event) | None \<Rightarrow> event_homeTeam event);
          awayTeam' = (case normalizeTeamName lg of
                         Some f \<Rightarrow> f (event_awayTeam event) | None \<Rightarrow> event_awayTeam event)
      in case scheduleTimings now clk lg event matchDate' homeTeam' awayTeam' tms st of
           (Some e, st') \<Rightarrow> (Some e, st')
         | (None, st') \<Rightarrow> scheduleEvents now clk lg tms rest st')"

text \<open>
  The body of the loop over the leagues, with its \<open>try\<close>/\<open>catch\<close>: an exception ends this
  league only, and skips its delay. The state is the world with \<open>totalEventsFound\<close> and
  \<open>totalJobsScheduled\<close>.
\<close>

definition discoverLeague ::
  "environment \<Rightarrow> collector \<Rightarrow> int \<Rightarrow> league_config \<Rightarrow> world \<times> nat \<times> nat \<Rightarrow> world \<times> nat \<times> nat" where
  "discoverLeague env c now lg st =
     (case st of (w, found, n) \<Rightarrow>
        (case fetchEvents env (providerKey lg) of
           Inl e \<Rightarrow> (w, found, n)
         | Inr events \<Rightarrow>
             (case scheduleEvents now (clock w) lg (timings c) events (jobs w, n) of
                (Some e, db', n') \<Rightarrow> (w\<lparr>jobs := db'\<rparr>, found + length events, n')
              | (None, db', n') \<Rightarrow>
                  (delay (requestDelay c) (w\<lparr>jobs := db'\<rparr>), found + length events, n'))))"

text \<open>
  \<open>discoverEvents\<close>: the world after, with the two totals of its summary. \<open>now\<close> is read
  once, before the first league.
\<close>

definition discoverEvents :: "environment \<Rightarrow> collector \<Rightarrow> world \<Rightarrow> world \<times> nat \<times> nat" where
  "discoverEvents env c w = foldl (\<lambda>st lg. discoverLeague env c (clock w) lg st) (w, 0, 0) (leagues c)"

subsection \<open>Execution\<close>

text \<open>A statement of \<open>updateJobStatus\<close> sent to the queue: it fails, or it updates the table.\<close>

definition queueUpdate ::
  "environment \<Rightarrow> string \<Rightarrow> job_status \<Rightarrow> string option \<Rightarrow> string option \<Rightarrow> world \<Rightarrow> error + world" where
  "queueUpdate env jid st snapshotPathArg errorArg w =
     (case queueFault env (UpdateJobStatus jid st) of
        Some e \<Rightarrow> Inl e
      | None \<Rightarrow> Inr (w\<lparr>jobs := updateJobStatus (clock w) jid st snapshotPathArg errorArg (jobs w)\<rparr>))"

text \<open>\<open>metricsMap\<close>: the entry under \<open>key\<close>, created with zero counts when absent, then changed by \<open>f\<close>.\<close>

definition bumpMetrics ::
  "string \<Rightarrow> string \<Rightarrow> (collection_metrics \<Rightarrow> collection_metrics) \<Rightarrow>
   (string \<times> collection_metrics) list \<Rightarrow> (string \<times> collection_metrics) list" where
  "bumpMetrics leagueId' today f metricsMap =
     (let metricsKey = leagueId' @ ''_'' @ today;
          metrics = (case map_of metricsMap metricsKey of
                       Some m \<Rightarrow> m
                     | None \<Rightarrow> \<lparr> metrics_date = today, metrics_leagueId = leagueId',
                                 jobsScheduled = 0, jobsCompleted = 0, jobsFailed = 0,
                                 apiRequests = 0, apiCostTokens = 0 \<rparr>)
      in put metricsKey (f metrics) metricsMap)"

text \<open>\<open>new Date().toISOString().split('T')[0]\<close>.\<close>

definition today_of :: "world \<Rightarrow> string" where
  "today_of w = takeWhile (\<lambda>ch. ch \<noteq> CHR ''T'') (toISOString (clock w))"

text \<open>\<open>estimateCost('live_odds', markets, regions)\<close>.\<close>

definition estimateCost_live_odds :: "nat \<Rightarrow> nat \<Rightarrow> nat" where
  "estimateCost_live_odds marketCount regions = marketCount * regions"

text \<open>\<open>s.split(',').length\<close>.\<close>

definition split_count :: "string \<Rightarrow> nat" where
  "split_count s = Suc (length (filter (\<lambda>ch. ch = CHR '','') s))"

text \<open>
  The \<open>try\<close> block of the loop of \<open>executeJobs\<close> for one job: \<open>Inl\<close> is the exception thrown,
  with the world as it was then; \<open>Inr\<close> is the metrics map at the end of the block.
\<close>

definition tryJob ::
  "environment \<Rightarrow> collector \<Rightarrow> scheduled_job \<Rightarrow> (string \<times> collection_metrics) list \<Rightarrow> world \<Rightarrow>
   (error + (string \<times> collection_metrics) list) \<times> world" where
  "tryJob env c job metricsMap w =
     (case queueUpdate env (jobId job) Running None None w of
        Inl e \<Rightarrow> (Inl e, w)
      | Inr w1 \<Rightarrow>
     (case find (\<lambda>l. league_id l = leagueId job) (leagues c) of
        None \<Rightarrow> (Inl (Error (''League config not found: '' @ leagueId job)), w1)
      | Some lg \<Rightarrow>
     (case find (\<lambda>t. timing_name t = timingOffset job) (timings c) of
        None \<Rightarrow> (Inl (Error (''Timing config not found: '' @ timingOffset job)), w1)
      | Some timing \<Rightarrow>
     (case fetchEventOdds env (providerKey lg) (eventId job) (markets timing) of
        Inl e \<Rightarrow> (Inl e, w1)
      | Inr oddsData \<Rightarrow>
     (let season' = inferSeasonFromDate (tz env) (matchDate job);
          snapshot = \<lparr> metadata = \<lparr> timestamp = toISOString (clock w1), date = matchDate job,
                                   league = leagueId job, season = season',
                                   collectionMethod = ''event_based'',
                                   snapshotTiming = timingOffset job,
                                   meta_eventId = eventId job,
                                   meta_kickoffTime = kickoffTime job \<rparr>,
                       odds = oddsData \<rparr>
      in case saveSnapshot env c (leagueId job) season' snapshot w1 of
           (Some e, w2) \<Rightarrow> (Inl e, w2)
         | (None, w2) \<Rightarrow>
     (let snapshotPath' = generateSnapshotPath (leagueId job) season' (timingOffset job)
                            (matchDate job) (homeTeam job) (awayTeam job) (eventId job)
      in case queueUpdate env (jobId job) Completed (Some snapshotPath') None w2 of
           Inl e \<Rightarrow> (Inl e, w2)
         | Inr w3 \<Rightarrow>
             (let marketCount = split_count (markets timing);
                  metricsMap' = bumpMetrics (leagueId job) (today_of w3)
                    (\<lambda>m. m\<lparr> jobsCompleted := jobsCompleted m + 1,
                             apiRequests := apiRequests m + 1,
                             apiCostTokens := apiCostTokens m + estimateCost_live_odds marketCount 1 \<rparr>)
                    metricsMap
              in (Inr metricsMap', delay (requestDelay c) w3))))))))"

text \<open>
  The \<open>catch\<close> block: the job is marked failed with the message of the error; this update
  is outside any \<open>try\<close>, so its own exception leaves \<open>executeJobs\<close>.
\<close>

definition catchJob ::
  "environment \<Rightarrow> collector \<Rightarrow> scheduled_job \<Rightarrow> error \<Rightarrow> (string \<times> collection_metrics) list \<Rightarrow>
   world \<Rightarrow> (error + (string \<times> collection_metrics) list) \<times> world" where
  "catchJob env c job e metricsMap w =
     (case queueUpdate env (jobId job) Failed None (Some (message e)) w of
        Inl e' \<Rightarrow> (Inl e', w)
      | Inr w1 \<Rightarrow>
          (let metricsMap' = bumpMetrics (leagueId job) (today_of w1)
                 (\<lambda>m. m\<lparr> jobsFailed := jobsFailed m + 1 \<rparr>) metricsMap
           in (Inr metricsMap', delay (requestDelay c) w1)))"

definition executeJob ::
  "environment \<Rightarrow> collector \<Rightarrow> scheduled_job \<Rightarrow> (string \<times> collection_metrics) list \<Rightarrow> world \<Rightarrow>
   (error + (string \<times> collection_metrics) list) \<times> world" where
  "executeJob env c job metricsMap w =
     (case tryJob env c job metricsMap w of
        (Inr metricsMap', w') \<Rightarrow> (Inr metricsMap', w')
      | (Inl e, w') \<Rightarrow> catchJob env c job e metricsMap w')"

text \<open>The loop \<open>for (const job of dueJobs)\<close>: an exception that leaves the body ends the loop.\<close>

fun runJobs ::
  "environment \<Rightarrow> collector \<Rightarrow> scheduled_job list \<Rightarrow> (string \<times> collection_metrics) list \<Rightarrow> world \<Rightarrow>
   (error + (string \<times> collection_metrics) list) \<times> world" where
  "runJobs env c [] metricsMap w = (Inr metricsMap, w)"
| "runJobs env c (job # rest) metricsMap w =
     (case executeJob env c job metricsMap w of
        (Inl e, w') \<Rightarrow> (Inl e, w')
      | (Inr metricsMap', w') \<Rightarrow> runJobs env c rest metricsMap' w')"

text \<open>\<open>recordMetrics\<close> for each value of the metrics map: an INSERT into \<open>collection_metrics\<close>.\<close>

fun recordAll :: "environment \<Rightarrow> collection_metrics list \<Rightarrow> world \<Rightarrow> error option \<times> world" where
  "recordAll env [] w = (None, w)"
| "recordAll env (m # ms) w =
     (case queueFault env (RecordMetrics (metrics_date m) (metrics_leagueId m)) of
        Some e \<Rightarrow> (Some e, w)
      | None \<Rightarrow> recordAll env ms (w\<lparr>metricsRows := metricsRows w @ [m]\<rparr>))"

text \<open>\<open>executeJobs\<close>: the exception it throws, if any, and the world after.\<close>

definition executeJobs :: "environment \<Rightarrow> collector \<Rightarrow> world \<Rightarrow> error option \<times> world" where
  "executeJobs env c w =
     (case queueFault env GetJobsDueWithin of
        Some e \<Rightarrow> (Some e, w)
      | None \<Rightarrow>
          (let dueJobs = getJobsDueWithin (clock w) 5 (maxJobsPerRun c) (jobs w)
           in if dueJobs = [] then (None, w)
              else (case runJobs env c dueJobs [] w of
                      (Inl e, w') \<Rightarrow> (Some e, w')
                    | (Inr metricsMap, w') \<Rightarrow> recordAll env (map snd metricsMap) w')))"

section \<open>The Index Builder\<close>












section \<open>Example data\<close>

text \<open>The timing presets of \<open>config/timingPresets\<close> and a league of \<open>config/leagues\<close>.\<close>

definition OPENING :: timing_offset where
  "OPENING = \<lparr> timing_name = ''opening'', hoursBeforeKickoff = 168,
     markets = ''h2h,alternate_totals,alternate_spreads,btts,double_chance'' \<rparr>"

definition DAY_BEFORE :: timing_offset where
  "DAY_BEFORE = \<lparr> timing_name = ''day_before'', hoursBeforeKickoff = 24,
     markets = ''h2h,alternate_totals,alternate_spreads,btts,double_chance'' \<rparr>"

definition CLOSING :: timing_offset where
  "CLOSING = \<lparr> timing_name = ''closing'', hoursBeforeKickoff = 3 / 2,
     markets = ''h2h,alternate_totals,alternate_spreads,btts,double_chance'' \<rparr>"

definition example_league :: league_config where
  "example_league = \<lparr> league_id = ''england_premier_league'', providerKey = ''soccer_epl'',
     normalizeTeamName = None \<rparr>"

text \<open>One fixture, kicking off on 2025-11-30 at 16:30 UTC, and a collector for it.\<close>

definition example_event :: odds_event where
  "example_event = \<lparr> event_id = ''04a7592aee6053a0cc6034d8c87e38e2'',
     event_homeTeam = ''Arsenal'', event_awayTeam = ''Chelsea'',
     commenceTime = ''2025-11-30T16:30:00Z'' \<rparr>"

definition example_env :: environment where
  "example_env = \<lparr>
     fetchEvents = (\<lambda>key. if key = ''soccer_epl'' then Inr [example_event]
                           else Inl (Error ''HTTP error! Status: 404 - Not Found'')),
     fetchEventOdds = (\<lambda>key event mk.
        Inr \<lparr> odds_id = event, odds_sportKey = key, odds_homeTeam = ''Home'',
              odds_awayTeam = ''Away'', odds_commenceTime = ''2025-11-30T16:30:00Z'',
              bookmakers = ''[]'' \<rparr>),
     tz = 0,
     putFault = (\<lambda>key attempt. None),
     queueFault = (\<lambda>call. None) \<rparr>"

definition example_collector :: collector where
  "example_collector = \<lparr> basePath = ''odds_data_v2'', maxRetries = 3,
     timings = [DAY_BEFORE, CLOSING], leagues = [example_league],
     maxJobsPerRun = 100, requestDelay = 1100 \<rparr>"

text \<open>An empty queue and bucket on 2025-11-25 at 06:00:00 UTC.\<close>

definition example_world :: world where
  "example_world = \<lparr> clock = 1764050400000, jobs = [], metricsRows = [], objects = [] \<rparr>"

text \<open>A row of the queue for the fixture above, with the given timing, scheduled time and status.\<close>

definition example_job :: "string \<Rightarrow> string \<Rightarrow> job_status \<Rightarrow> scheduled_job" where
  "example_job timing scheduledTime' st =
     \<lparr> jobId = ''04a7592aee6053a0cc6034d8c87e38e2_'' @ timing,
       leagueId = ''england_premier_league'',
       eventId = ''04a7592aee6053a0cc6034d8c87e38e2'',
       homeTeam = ''Arsenal'', awayTeam = ''Chelsea'', matchDate = ''2025-11-30'',
       kickoffTime = ''2025-11-30T16:30:00Z'', timingOffset = timing,
       scheduledTime = scheduledTime', status = st, attempts = 0, lastAttempt = None,
       snapshotPath = None, error = None, createdAt = ''2025-11-25 06:00:00'',
       completedAt = None \<rparr>"

definition example_new_job :: new_job where
  "example_new_job =
     \<lparr> new_id = ''04a7592aee6053a0cc6034d8c87e38e2_closing'',
       new_leagueId = ''england_premier_league'',
       new_eventId = ''04a7592aee6053a0cc6034d8c87e38e2'',
       new_homeTeam = ''Arsenal'', new_awayTeam = ''Chelsea'', new_matchDate = ''2025-11-30'',
       new_kickoffTime = ''2025-11-30T16:30:00Z'', new_timingOffset = ''closing'',
       new_scheduledTime = ''2025-11-30T15:00:00.000Z'' \<rparr>"







text \<open>
  The queue on 2025-11-30 at 15:00:00 UTC with the closing job of the example fixture due,
  and the same queue with the closing job of a second fixture due two minutes later.
\<close>

definition example_due_world :: world where
  "example_due_world =
     \<lparr> clock = 1764514800000,
       jobs = [example_job ''closing'' ''2025-11-30T15:00:00.000Z'' Pending],
       metricsRows = [], objects = [] \<rparr>"

definition example_job2 :: scheduled_job where
  "example_job2 =
     \<lparr> jobId = ''5b1c0a7d2e9f4c3b8a6d1e0f9c8b7a65_closing'',
       leagueId = ''england_premier_league'',
       eventId = ''5b1c0a7d2e9f4c3b8a6d1e0f9c8b7a65'',
       homeTeam = ''Liverpool'', awayTeam = ''Everton'', matchDate = ''2025-11-30'',
       kickoffTime = ''2025-11-30T16:32:00Z'', timingOffset = ''closing'',
       scheduledTime = ''2025-11-30T15:02:00.000Z'', status = Pending, attempts = 0,
       lastAttempt = None, snapshotPath = None, error = None,
       createdAt = ''2025-11-25 06:00:00'', completedAt = None \<rparr>"




section \<open>Properties of the calendar and of season inference\<close>














section \<open>Properties of the Job Queue\<close>

lemma getJob_None_iff: "getJob db k = None \<longleftrightarrow> k \<notin> jobId ` set db"
  by (auto simp: getJob_def find_None_iff)

lemma jobId_updateRow: "jobId (updateRow now st sp err r) = jobId r"
  by (simp add: updateRow_def)

lemma getJob_update:
  "getJob (updateJobStatus now jid st sp err db) jid = map_option (updateRow now st sp err) (getJob db jid)"
  unfolding getJob_def updateJobStatus_def
  by (induction db) (auto simp: jobId_updateRow)


text \<open>
  Claim C2, as the spec states it: \<open>scheduleJob\<close> is insert-or-noop, so a call whose id is
  already a row leaves the table unchanged and raises no error. The code sends a plain
  INSERT: on the table holding the closing job of the example fixture, scheduling that job
  again fails with the primary key's constraint error.
\<close>

theorem scheduleJob_existing_id_counterexample:
  "new_id example_new_job \<in> jobId ` set [example_job ''closing'' ''2025-11-30T15:00:00.000Z'' Pending] \<and>
   scheduleJob 1764136800000 example_new_job [example_job ''closing'' ''2025-11-30T15:00:00.000Z'' Pending]
     = Inl (Error ''UNIQUE constraint failed: scheduled_jobs.id'')"
  by (simp add: scheduleJob_def example_new_job_def example_job_def)

text \<open>
  Claim C2, amended: \<open>scheduleJob\<close> is insert-or-error keyed by the job id. With the id
  already a row it raises the constraint error of the primary key and the table stays as it
  was; with a new id it appends one pending row with zero attempts. Either way it never
  leaves two rows with one id, so the ids stay distinct, and with them the pairs
  (fixture id, offset name) of a table whose ids are the deterministic ids.
\<close>

theorem scheduleJob_insert_or_error:
  "(new_id job \<in> jobId ` set db \<longrightarrow>
      scheduleJob now job db = Inl (Error ''UNIQUE constraint failed: scheduled_jobs.id'')) \<and>
   (new_id job \<notin> jobId ` set db \<longrightarrow>
      (\<exists>row. scheduleJob now job db = Inr (db @ [row]) \<and> jobId row = new_id job \<and>
             status row = Pending \<and> attempts row = 0)) \<and>
   (\<forall>db'. distinct (map jobId db) \<and> scheduleJob now job db = Inr db' \<longrightarrow> distinct (map jobId db')) \<and>
   (\<forall>db'. distinct (map jobId db) \<and> scheduleJob now job db = Inr db' \<and>
          (\<forall>r \<in> set db'. jobId r = generateJobId (eventId r) (timingOffset r)) \<longrightarrow>
          distinct (map (\<lambda>r. (eventId r, timingOffset r)) db'))"
proof -
  have d: "distinct (map jobId db')" if "distinct (map jobId db)" "scheduleJob now job db = Inr db'" for db'
    using that by (auto simp: scheduleJob_def split: if_splits)
  have p: "distinct (map (\<lambda>r. (eventId r, timingOffset r)) db')"
    if "distinct (map jobId db')" "\<forall>r \<in> set db'. jobId r = generateJobId (eventId r) (timingOffset r)" for db'
  proof -
    have "inj_on (\<lambda>r. (eventId r, timingOffset r)) (set db')"
    proof (rule inj_onI)
      fix x y assume "x \<in> set db'" "y \<in> set db'" "(eventId x, timingOffset x) = (eventId y, timingOffset y)"
      with that(2) have "jobId x = jobId y" by simp
      with that(1) \<open>x \<in> set db'\<close> \<open>y \<in> set db'\<close> show "x = y"
        by (meson distinct_map inj_onD)
    qed
    moreover from that(1) have "distinct db'" by (simp add: distinct_map)
    ultimately show ?thesis by (simp add: distinct_map)
  qed
  show ?thesis
    using d p by (auto simp: scheduleJob_def)
qed

theorem scheduleJob_insert_or_error_witness:
  "new_id example_new_job \<in> jobId ` set [example_job ''closing'' ''2025-11-30T15:00:00.000Z'' Pending] \<and>
   scheduleJob 1764136800000 example_new_job [example_job ''closing'' ''2025-11-30T15:00:00.000Z'' Pending]
     = Inl (Error ''UNIQUE constraint failed: scheduled_jobs.id'') \<and>
   new_id example_new_job \<notin> jobId ` set [example_job ''day_before'' ''2025-11-29T16:30:00.000Z'' Pending] \<and>
   (\<exists>row. scheduleJob 1764136800000 example_new_job [example_job ''day_before'' ''2025-11-29T16:30:00.000Z'' Pending]
       = Inr ([example_job ''day_before'' ''2025-11-29T16:30:00.000Z'' Pending] @ [row]) \<and>
      jobId row = new_id example_new_job \<and> status row = Pending \<and> attempts row = 0 \<and>
      distinct (map jobId ([example_job ''day_before'' ''2025-11-29T16:30:00.000Z'' Pending] @ [row])) \<and>
      distinct (map (\<lambda>r. (eventId r, timingOffset r))
        ([example_job ''day_before'' ''2025-11-29T16:30:00.000Z'' Pending] @ [row])))"
proof -
  let ?a = "[example_job ''closing'' ''2025-11-30T15:00:00.000Z'' Pending]"
  let ?b = "[example_job ''day_before'' ''2025-11-29T16:30:00.000Z'' Pending]"
  note t1 = scheduleJob_insert_or_error[of example_new_job ?a 1764136800000]
  note t2 = scheduleJob_insert_or_error[of example_new_job ?b 1764136800000]
  have a: "new_id example_new_job \<in> jobId ` set ?a" by (simp add: example_new_job_def example_job_def)
  have b: "new_id example_new_job \<notin> jobId ` set ?b" by (simp add: example_new_job_def example_job_def)
  have db: "distinct (map jobId ?b)" by simp
  from t2 b obtain row where row: "scheduleJob 1764136800000 example_new_job ?b = Inr (?b @ [row])"
    "jobId row = new_id example_new_job" "status row = Pending" "attempts row = 0" by blast
  from t2 db row(1) have d1: "distinct (map jobId (?b @ [row]))" by blast
  have gen: "\<forall>r \<in> set (?b @ [row]). jobId r = generateJobId (eventId r) (timingOffset r)"
    using row(1) by (auto simp: scheduleJob_def example_new_job_def example_job_def generateJobId_def split: if_splits)
  from t2 db row(1) gen have d2: "distinct (map (\<lambda>r. (eventId r, timingOffset r)) (?b @ [row]))" by blast
  from t1 a b row d1 d2 show ?thesis by blast
qed

text \<open>
  Claim C3: for every existing row, \<open>updateJobStatus\<close> adds exactly one to \<open>attempts\<close>,
  stamps \<open>lastAttempt\<close> with the current time, stamps \<open>completedAt\<close> exactly when the status
  is completed or failed and leaves it otherwise, and keeps the stored snapshot location
  when no new one is supplied.
\<close>

theorem updateJobStatus_bookkeeping:
  assumes "getJob db jid = Some r"
  shows "\<exists>r'. getJob (updateJobStatus now jid st snapshotPathArg errorArg db) jid = Some r' \<and>
           status r' = st \<and>
           attempts r' = attempts r + 1 \<and>
           lastAttempt r' = Some (CURRENT_TIMESTAMP now) \<and>
           completedAt r' = (if st = Completed \<or> st = Failed then Some (CURRENT_TIMESTAMP now)
                             else completedAt r) \<and>
           (snapshotPathArg = None \<longrightarrow> snapshotPath r' = snapshotPath r)"
  using assms by (auto simp: getJob_update updateRow_def coalesce_def orNull_def)

theorem updateJobStatus_bookkeeping_witness:
  "getJob [(example_job ''closing'' ''2025-11-30T15:00:00.000Z'' Completed)
            \<lparr>attempts := 2, snapshotPath := Some ''kept.json'', completedAt := Some ''2025-11-30 15:00:03''\<rparr>]
     ''04a7592aee6053a0cc6034d8c87e38e2_closing'' =
     Some ((example_job ''closing'' ''2025-11-30T15:00:00.000Z'' Completed)
            \<lparr>attempts := 2, snapshotPath := Some ''kept.json'', completedAt := Some ''2025-11-30 15:00:03''\<rparr>) \<and>
   (\<exists>r'. getJob (updateJobStatus 1764515000000 ''04a7592aee6053a0cc6034d8c87e38e2_closing'' Running None None
        [(example_job ''closing'' ''2025-11-30T15:00:00.000Z'' Completed)
            \<lparr>attempts := 2, snapshotPath := Some ''kept.json'', completedAt := Some ''2025-11-30 15:00:03''\<rparr>])
        ''04a7592aee6053a0cc6034d8c87e38e2_closing'' = Some r' \<and>
      status r' = Running \<and> attempts r' = 3 \<and>
      lastAttempt r' = Some ''2025-11-30 15:03:20'' \<and>
      completedAt r' = Some ''2025-11-30 15:00:03'' \<and>
      snapshotPath r' = Some ''kept.json'')"
proof -
  let ?r = "(example_job ''closing'' ''2025-11-30T15:00:00.000Z'' Completed)
            \<lparr>attempts := 2, snapshotPath := Some ''kept.json'', completedAt := Some ''2025-11-30 15:00:03''\<rparr>"
  have h: "getJob [?r] ''04a7592aee6053a0cc6034d8c87e38e2_closing'' = Some ?r"
    by (simp add: getJob_def example_job_def)
  have ts: "CURRENT_TIMESTAMP 1764515000000 = ''2025-11-30 15:03:20''" by code_simp
  from updateJobStatus_bookkeeping[OF h, of 1764515000000 Running None None] h ts
  show ?thesis by (simp add: example_job_def)
qed








section \<open>Properties of discovery\<close>

lemma scheduleJob_new:
  "getJob db (new_id job) = None \<Longrightarrow> scheduleJob clk job db = Inr db' \<Longrightarrow>
   jobId ` set db' = insert (new_id job) (jobId ` set db)"
  by (auto simp: scheduleJob_def split: if_splits)

lemma scheduleTimings_mono:
  "scheduleTimings now clk lg ev md h a tms (db, n) = (r, db', n') \<Longrightarrow>
   jobId ` set db \<subseteq> jobId ` set db'"
proof (induction tms arbitrary: db n)
  case Nil
  then show ?case by simp
next
  case (Cons tm tms)
  show ?case
  proof (cases "calculateScheduledTime (commenceTime ev) (hoursBeforeKickoff tm)")
    case (Inl e)
    with Cons.prems show ?thesis by simp
  next
    case (Inr s)
    show ?thesis
    proof (cases "isPast now s \<or> getJob db (generateJobId (event_id ev) (timing_name tm)) \<noteq> None")
      case True
      with Cons.prems Inr have "scheduleTimings now clk lg ev md h a tms (db, n) = (r, db', n')"
        by (auto simp: Let_def split: if_splits)
      then show ?thesis by (rule Cons.IH)
    next
      case False
      then have nopast: "\<not> isPast now s"
        and none: "getJob db (generateJobId (event_id ev) (timing_name tm)) = None" by auto
      let ?job = "\<lparr> new_id = generateJobId (event_id ev) (timing_name tm), new_leagueId = league_id lg,
                              new_eventId = event_id ev, new_homeTeam = h,
                              new_awayTeam = a, new_matchDate = md,
                              new_kickoffTime = commenceTime ev,
                              new_timingOffset = timing_name tm,
                              new_scheduledTime = s \<rparr>"
      show ?thesis
      proof (cases "scheduleJob clk ?job db")
        case (Inl e)
        with Cons.prems Inr nopast none show ?thesis by (simp add: Let_def)
      next
        case (Inr db1)
        with Cons.prems \<open>calculateScheduledTime _ _ = Inr s\<close> nopast none
        have "scheduleTimings now clk lg ev md h a tms (db1, Suc n) = (r, db', n')"
          by (simp add: Let_def)
        then have "jobId ` set db1 \<subseteq> jobId ` set db'" by (rule Cons.IH)
        moreover have "jobId ` set db1 = insert (new_id ?job) (jobId ` set db)"
          using none Inr by (intro scheduleJob_new) auto
        ultimately show ?thesis by auto
      qed
    qed
  qed
qed

lemma isPast_mono: "isPast now s \<Longrightarrow> now \<le> now2 \<Longrightarrow> isPast now2 s"
  by (auto simp: isPast_def split: option.splits)

lemma scheduleTimings_again:
  "scheduleTimings now clk lg ev md h a tms (db, n) = (r, db', n') \<Longrightarrow> now \<le> now2 \<Longrightarrow>
   jobId ` set db' \<subseteq> jobId ` set db2 \<Longrightarrow>
   scheduleTimings now2 clk2 lg ev md h a tms (db2, n2) = (r, db2, n2)"
proof (induction tms arbitrary: db n)
  case Nil
  then show ?case by simp
next
  case (Cons tm tms)
  show ?case
  proof (cases "calculateScheduledTime (commenceTime ev) (hoursBeforeKickoff tm)")
    case (Inl e)
    with Cons.prems show ?thesis by simp
  next
    case (Inr s)
    define k where "k = generateJobId (event_id ev) (timing_name tm)"
    have rest: "scheduleTimings now2 clk2 lg ev md h a tms (db2, n2) = (r, db2, n2) \<and> (\<not> isPast now s \<longrightarrow> k \<in> jobId ` set db2)"
    proof (cases "isPast now s \<or> getJob db k \<noteq> None")
      case True
      with Cons.prems Inr have run: "scheduleTimings now clk lg ev md h a tms (db, n) = (r, db', n')"
        by (auto simp: Let_def k_def split: if_splits)
      from scheduleTimings_mono[OF run] Cons.prems(3) True
      have "\<not> isPast now s \<longrightarrow> k \<in> jobId ` set db2"
        by (auto simp: getJob_None_iff)
      with Cons.IH[OF run Cons.prems(2,3)] show ?thesis by simp
    next
      case False
      then have nopast: "\<not> isPast now s" and none: "getJob db k = None" by auto
      define job where "job = \<lparr> new_id = k, new_leagueId = league_id lg,
                              new_eventId = event_id ev, new_homeTeam = h,
                              new_awayTeam = a, new_matchDate = md,
                              new_kickoffTime = commenceTime ev,
                              new_timingOffset = timing_name tm,
                              new_scheduledTime = s \<rparr>"
      have kid: "new_id job = k" by (simp add: job_def)
      show ?thesis
      proof (cases "scheduleJob clk job db")
        case (Inl e)
        with none kid show ?thesis by (auto simp: scheduleJob_def getJob_None_iff)
      next
        case (Inr db1)
        with Cons.prems(1) \<open>calculateScheduledTime _ _ = Inr s\<close> nopast none
        have run: "scheduleTimings now clk lg ev md h a tms (db1, Suc n) = (r, db', n')"
          by (simp add: Let_def k_def job_def)
        have "jobId ` set db1 = insert k (jobId ` set db)"
          using scheduleJob_new[of db job clk db1] none Inr kid by simp
        with scheduleTimings_mono[OF run] Cons.prems(3) have "k \<in> jobId ` set db2" by auto
        with Cons.IH[OF run Cons.prems(2,3)] show ?thesis by simp
      qed
    qed
    show ?thesis
    proof (cases "isPast now2 s")
      case True
      with Inr rest show ?thesis by simp
    next
      case False
      with isPast_mono[of now s now2] Cons.prems(2) have "\<not> isPast now s" by blast
      with rest have "getJob db2 k \<noteq> None" by (simp add: getJob_None_iff)
      with Inr False rest show ?thesis by (auto simp: Let_def k_def)
    qed
  qed
qed

lemma scheduleEvents_mono:
  "scheduleEvents now clk lg tms evs (db, n) = (r, db', n') \<Longrightarrow>
   jobId ` set db \<subseteq> jobId ` set db'"
proof (induction evs arbitrary: db n)
  case Nil
  then show ?case by simp
next
  case (Cons ev evs)
  obtain r1 db1 n1 where step: "scheduleTimings now clk lg ev (takeWhile (\<lambda>ch. ch \<noteq> CHR ''T'') (commenceTime ev))
      (case normalizeTeamName lg of Some f \<Rightarrow> f (event_homeTeam ev) | None \<Rightarrow> event_homeTeam ev)
      (case normalizeTeamName lg of Some f \<Rightarrow> f (event_awayTeam ev) | None \<Rightarrow> event_awayTeam ev) tms (db, n) = (r1, db1, n1)"
    by (metis prod_cases3)
  note m1 = scheduleTimings_mono[OF step]
  show ?case
  proof (cases r1)
    case None
    with Cons.prems step have "scheduleEvents now clk lg tms evs (db1, n1) = (r, db', n')"
      by (simp add: Let_def)
    from Cons.IH[OF this] m1 show ?thesis by auto
  next
    case (Some e)
    with Cons.prems step have "db' = db1" by (simp add: Let_def)
    with m1 show ?thesis by simp
  qed
qed

lemma scheduleEvents_again:
  "scheduleEvents now clk lg tms evs (db, n) = (r, db', n') \<Longrightarrow> now \<le> now2 \<Longrightarrow>
   jobId ` set db' \<subseteq> jobId ` set db2 \<Longrightarrow>
   scheduleEvents now2 clk2 lg tms evs (db2, n2) = (r, db2, n2)"
proof (induction evs arbitrary: db n)
  case Nil
  then show ?case by simp
next
  case (Cons ev evs)
  define md where "md = takeWhile (\<lambda>ch. ch \<noteq> CHR ''T'') (commenceTime ev)"
  define h where "h = (case normalizeTeamName lg of Some f \<Rightarrow> f (event_homeTeam ev) | None \<Rightarrow> event_homeTeam ev)"
  define a where "a = (case normalizeTeamName lg of Some f \<Rightarrow> f (event_awayTeam ev) | None \<Rightarrow> event_awayTeam ev)"
  obtain r1 db1 n1 where step: "scheduleTimings now clk lg ev md h a tms (db, n) = (r1, db1, n1)"
    by (metis prod_cases3)
  show ?case
  proof (cases r1)
    case None
    with Cons.prems(1) step have run: "scheduleEvents now clk lg tms evs (db1, n1) = (r, db', n')"
      by (simp add: Let_def md_def h_def a_def)
    from scheduleEvents_mono[OF run] Cons.prems(3) have "jobId ` set db1 \<subseteq> jobId ` set db2" by auto
    from scheduleTimings_again[OF step Cons.prems(2) this, of clk2 n2] None
    have "scheduleTimings now2 clk2 lg ev md h a tms (db2, n2) = (None, db2, n2)" by simp
    with Cons.IH[OF run Cons.prems(2,3)] show ?thesis
      by (simp add: Let_def md_def h_def a_def)
  next
    case (Some e)
    with Cons.prems(1) step have "db' = db1" "r = Some e" by (simp_all add: Let_def md_def h_def a_def)
    with scheduleTimings_again[OF step Cons.prems(2), of db2 clk2 n2] Cons.prems(3) Some
    show ?thesis by (simp add: Let_def md_def h_def a_def)
  qed
qed

lemma discoverLeague_mono:
  "discoverLeague env c now lg (w, f, n) = (w', f', n') \<Longrightarrow>
   jobId ` set (jobs w) \<subseteq> jobId ` set (jobs w')"
proof (cases "fetchEvents env (providerKey lg)")
  case (Inl e)
  assume "discoverLeague env c now lg (w, f, n) = (w', f', n')"
  with Inl show ?thesis by (simp add: discoverLeague_def)
next
  case (Inr evs)
  assume run: "discoverLeague env c now lg (w, f, n) = (w', f', n')"
  obtain r db1 n1 where step: "scheduleEvents now (clock w) lg (timings c) evs (jobs w, n) = (r, db1, n1)"
    by (metis prod_cases3)
  from run Inr step have "jobs w' = db1"
    by (cases r) (auto simp: discoverLeague_def delay_def)
  with scheduleEvents_mono[OF step] show ?thesis by simp
qed

lemma discoverLeague_again:
  assumes run: "discoverLeague env c now lg (w, f, n) = (w', f', n')"
    and le: "now \<le> now2"
    and sub: "jobId ` set (jobs w') \<subseteq> jobId ` set (jobs w2)"
  shows "\<exists>w2' f2'. discoverLeague env c now2 lg (w2, f2, n2) = (w2', f2', n2) \<and> jobs w2' = jobs w2"
proof (cases "fetchEvents env (providerKey lg)")
  case (Inl e)
  then show ?thesis by (simp add: discoverLeague_def)
next
  case (Inr evs)
  obtain r db1 n1 where step: "scheduleEvents now (clock w) lg (timings c) evs (jobs w, n) = (r, db1, n1)"
    by (metis prod_cases3)
  from run Inr step have "jobs w' = db1"
    by (cases r) (auto simp: discoverLeague_def delay_def)
  with sub have "jobId ` set db1 \<subseteq> jobId ` set (jobs w2)" by simp
  from scheduleEvents_again[OF step le this, of "clock w2" n2]
  have "scheduleEvents now2 (clock w2) lg (timings c) evs (jobs w2, n2) = (r, jobs w2, n2)" .
  with Inr show ?thesis
    by (cases r) (auto simp: discoverLeague_def delay_def)
qed

lemma discover_fold_mono:
  "foldl (\<lambda>st lg. discoverLeague env c now lg st) (w, f, n) lgs = (w', f', n') \<Longrightarrow>
   jobId ` set (jobs w) \<subseteq> jobId ` set (jobs w')"
proof (induction lgs arbitrary: w f n)
  case Nil
  then show ?case by simp
next
  case (Cons lg lgs)
  obtain w1 f1 n1 where step: "discoverLeague env c now lg (w, f, n) = (w1, f1, n1)"
    by (metis prod_cases3)
  with Cons.prems have "foldl (\<lambda>st lg. discoverLeague env c now lg st) (w1, f1, n1) lgs = (w', f', n')"
    by simp
  from Cons.IH[OF this] discoverLeague_mono[OF step] show ?case by blast
qed

lemma discover_fold_again:
  "foldl (\<lambda>st lg. discoverLeague env c now lg st) (w, f, n) lgs = (w', f', n') \<Longrightarrow>
   now \<le> now2 \<Longrightarrow> jobId ` set (jobs w') \<subseteq> jobId ` set (jobs w2) \<Longrightarrow>
   \<exists>w2' f2'. foldl (\<lambda>st lg. discoverLeague env c now2 lg st) (w2, f2, n2) lgs = (w2', f2', n2) \<and>
      jobs w2' = jobs w2"
proof (induction lgs arbitrary: w f n w2 f2)
  case Nil
  then show ?case by simp
next
  case (Cons lg lgs)
  obtain w1 f1 n1 where step: "discoverLeague env c now lg (w, f, n) = (w1, f1, n1)"
    by (metis prod_cases3)
  with Cons.prems(1) have run: "foldl (\<lambda>st lg. discoverLeague env c now lg st) (w1, f1, n1) lgs = (w', f', n')"
    by simp
  from discover_fold_mono[OF run] Cons.prems(3) have "jobId ` set (jobs w1) \<subseteq> jobId ` set (jobs w2)" by blast
  from discoverLeague_again[OF step Cons.prems(2) this, of f2 n2]
  obtain w2a f2a where a: "discoverLeague env c now2 lg (w2, f2, n2) = (w2a, f2a, n2)" and j: "jobs w2a = jobs w2"
    by blast
  from Cons.prems(3) j have "jobId ` set (jobs w') \<subseteq> jobId ` set (jobs w2a)" by simp
  from Cons.IH[OF run Cons.prems(2) this, of f2a] a j show ?case by simp
qed

text \<open>
  Claim C1: discovery is idempotent. After one pass over a fixture list, a second pass over
  the same list, started at any later time, inserts no row: it schedules zero jobs and
  leaves the table of jobs as the first pass left it.
\<close>

theorem discovery_idempotent:
  assumes "discoverEvents env c w = (w1, found1, scheduled1)" and "clock w \<le> t"
  shows "\<exists>w2 found2. discoverEvents env c (w1\<lparr>clock := t\<rparr>) = (w2, found2, 0) \<and> jobs w2 = jobs w1"
proof -
  from assms(1) have run: "foldl (\<lambda>st lg. discoverLeague env c (clock w) lg st) (w, 0, 0) (leagues c) = (w1, found1, scheduled1)"
    by (simp add: discoverEvents_def)
  have "jobId ` set (jobs w1) \<subseteq> jobId ` set (jobs (w1\<lparr>clock := t\<rparr>))" by simp
  from discover_fold_again[OF run assms(2) this, of 0 0]
  show ?thesis by (simp add: discoverEvents_def)
qed

theorem discovery_idempotent_witness:
  "clock example_world \<le> 1764136800000 \<and>
   snd (snd (discoverEvents example_env example_collector example_world)) = 2 \<and>
   (\<exists>w2 found2.
      discoverEvents example_env example_collector
        ((fst (discoverEvents example_env example_collector example_world))\<lparr>clock := 1764136800000\<rparr>)
        = (w2, found2, 0) \<and>
      jobs w2 = jobs (fst (discoverEvents example_env example_collector example_world)))"
proof -
  have le: "clock example_world \<le> 1764136800000" by (simp add: example_world_def)
  have n: "snd (snd (discoverEvents example_env example_collector example_world)) = 2" by code_simp
  have run: "discoverEvents example_env example_collector example_world =
     (fst (discoverEvents example_env example_collector example_world),
      fst (snd (discoverEvents example_env example_collector example_world)),
      snd (snd (discoverEvents example_env example_collector example_world)))" by simp
  from discovery_idempotent[OF run le] le n show ?thesis by simp
qed

section \<open>Properties of the Index Builder\<close>










lemma getIndex_alt:
  "getIndex c l s t w = (case map_of (objects w) (indexKey c l s t) of Some (Index i) \<Rightarrow> Some i | _ \<Rightarrow> None)"
  by (simp add: getIndex_def indexKey_def Let_def)








lemma getIndex_clock [simp]: "getIndex c l s t (w\<lparr>clock := x\<rparr>) = getIndex c l s t w"
  by (simp add: getIndex_alt)







section \<open>Properties of execution\<close>









lemma example_times:
  "toISOString 1764514800000 = ''2025-11-30T15:00:00.000Z''"
  "CURRENT_TIMESTAMP 1764514800000 = ''2025-11-30 15:00:00''"
  "inferSeasonFromDate 0 ''2025-11-30'' = ''2025-2026''"
  by code_simp+

lemma example_due:
  "dueWithin 1764514800000 5 (example_job ''closing'' ''2025-11-30T15:00:00.000Z'' Pending)"
  "dueWithin 1764514800000 5 example_job2"
  by code_simp+

lemma example_paths:
  "generateSnapshotPath ''england_premier_league'' ''2025-2026'' ''closing'' ''2025-11-30''
     ''Arsenal'' ''Chelsea'' ''04a7592aee6053a0cc6034d8c87e38e2'' =
   ''england_premier_league/2025-2026/snapshots/closing/2025-11-30/Arsenal_vs_Chelsea_04a7592.json''"
  "split_count (markets CLOSING) = 5"
  by code_simp+



text \<open>
  Claim C5: the snapshot of a successfully executed job is stored under
  \<open>leagues/{leagueId}/{season}/{fixtureId}_{offsetName}_{matchDate}.json\<close> (below the base
  path of the storage), and the location recorded on the completed row is that key. The
  code stores the snapshot under that key, but records on the row the path that
  \<open>generateSnapshotPath\<close> builds, \<open>{league}/{season}/snapshots/{timing}/{date}/...\<close>: on the
  due closing job of the example fixture the two differ.
\<close>

theorem executeJobs_recorded_path_differs:
  "(case executeJobs example_env example_collector example_due_world of
      (r, w') \<Rightarrow>
        r = None \<and>
        map fst (objects w') =
          [''odds_data_v2/leagues/england_premier_league/2025-2026/04a7592aee6053a0cc6034d8c87e38e2_closing_2025-11-30.json''] \<and>
        map (\<lambda>j. (status j, snapshotPath j)) (jobs w') =
          [(Completed,
            Some ''england_premier_league/2025-2026/snapshots/closing/2025-11-30/Arsenal_vs_Chelsea_04a7592.json'')])"
proof -
  have due: "getJobsDueWithin 1764514800000 5 100 [example_job ''closing'' ''2025-11-30T15:00:00.000Z'' Pending]
     = [example_job ''closing'' ''2025-11-30T15:00:00.000Z'' Pending]"
    by (simp add: getJobsDueWithin_def example_due)
  show ?thesis
    unfolding executeJobs_def example_due_world_def
    apply (simp add: example_env_def example_collector_def due Let_def)
    apply (simp add: executeJob_def tryJob_def queueUpdate_def example_job_def updateJobStatus_def
        updateRow_def coalesce_def orNull_def example_league_def DAY_BEFORE_def CLOSING_def
        example_times example_paths Let_def saveSnapshot_def withRetry_def getKey_def getSnapshotId_def
        delay_def bumpMetrics_def today_of_def estimateCost_live_odds_def
        example_paths[unfolded CLOSING_def, simplified] numeral_3_eq_3)
    apply (simp add: example_env_def)
    done
qed




end
